theory Spec2Isabelle
  imports Complex_Main
begin

section \<open>Data model (lib/store.ts)\<close>

text \<open>
  The interfaces \<^verbatim>\<open>Node\<close>, \<^verbatim>\<open>Link\<close> and \<^verbatim>\<open>GraphData\<close> of lib/store.ts.
  Record fields are global constants in HOL, so the fields of \<^verbatim>\<open>Node\<close> carry the
  prefix \<open>n_\<close> and those of \<^verbatim>\<open>Link\<close> the prefix \<open>l_\<close>. An optional field
  (\<^verbatim>\<open>x?: number\<close>) is an \<open>option\<close>, \<open>None\<close> standing for \<^verbatim>\<open>undefined\<close>; for the pin
  fields \<^verbatim>\<open>fx?: number | null\<close> it stands for \<^verbatim>\<open>null\<close> as well (the code never tells the
  two apart).

  Nodes and links are JavaScript objects: arrays hold references to them, and two arrays
  may hold the same object. A reference is a \<open>ref\<close>; the heap maps references to the
  objects' current fields.
\<close>

datatype node_type = Today | Cited | Expanded | Center

record node =
  n_id :: string
  n_title :: "string option"
  n_summary :: "string option"
  n_domain :: "string option"
  n_type :: node_type
  n_first_author :: "string option"
  n_author_count :: "real option"
  n_year :: "string option"
  n_key_contributions :: "string list option"
  n_methodology :: "string option"
  n_x :: "real option"
  n_y :: "real option"
  n_fx :: "real option"
  n_fy :: "real option"
  n_vx :: "real option"
  n_vy :: "real option"

type_synonym ref = nat

text \<open>\<^verbatim>\<open>source: string | Node\<close>: an id, or a reference to a node object.\<close>

datatype endpoint = Id string | Obj ref

datatype link_type = CITES

record link =
  l_source :: endpoint
  l_target :: endpoint
  l_type :: link_type

record graphData =
  nodes :: "ref list"
  links :: "ref list"

record heap =
  nodeObj :: "ref \<Rightarrow> node"
  linkObj :: "ref \<Rightarrow> link"

text \<open>The fields of the zustand store that the graph canvas reads and writes.\<close>

record store =
  graphData :: graphData
  selectedPaper :: "string option"
  isExpandingNode :: bool
  expandingNodeId :: "string option"
  hoveredNode :: "string option"
  cameraTarget :: "(real \<times> real) option"

section \<open>Merge (addGraphData, lib/store.ts)\<close>

text \<open>
  \<^verbatim>\<open>typeof l.source === 'string' ? l.source : l.source.id\<close>
\<close>

definition endpointId :: "heap \<Rightarrow> endpoint \<Rightarrow> string" where
  "endpointId h e = (case e of Id s \<Rightarrow> s | Obj r \<Rightarrow> n_id (nodeObj h r))"

text \<open>The template string \<^verbatim>\<open>`${source id}-${target id}`\<close> that keys a link.\<close>

definition linkId :: "heap \<Rightarrow> link \<Rightarrow> string" where
  "linkId h l = endpointId h (l_source l) @ ''-'' @ endpointId h (l_target l)"

text \<open>
  \<^verbatim>\<open>addGraphData(data)\<close> reads the current graph of the store and the ids of the
  objects, and stores the two concatenated arrays. It writes no object.
\<close>

definition addGraphData :: "graphData \<Rightarrow> heap \<times> store \<Rightarrow> heap \<times> store" where
  "addGraphData data = (\<lambda>(h, st).
     let current = graphData st;
         existingNodeIds = set (map (\<lambda>n. n_id (nodeObj h n)) (nodes current));
         existingLinks = set (map (\<lambda>l. linkId h (linkObj h l)) (links current));
         newNodes = filter (\<lambda>n. n_id (nodeObj h n) \<notin> existingNodeIds) (nodes data);
         newLinks = filter (\<lambda>l. linkId h (linkObj h l) \<notin> existingLinks) (links data)
     in (h, st\<lparr>graphData := \<lparr>nodes = nodes current @ newNodes,
                                links = links current @ newLinks\<rparr>\<rparr>))"

section \<open>JavaScript numbers\<close>

text \<open>
  The viewport arithmetic of GraphCanvas.tsx is arithmetic on doubles. A finite double is
  modelled as a real (rounding and overflow are not modelled); \<^verbatim>\<open>Infinity\<close>,
  \<^verbatim>\<open>-Infinity\<close> and \<^verbatim>\<open>NaN\<close> are values of their own, and the operations treat them as
  IEEE 754 and JavaScript do. Signed zeros are not told apart: a zero divisor is taken
  as \<open>+0\<close>, which is what the code divides by (a distance, or the literal 0).
\<close>

datatype jsnum = Num real | PosInf | NegInf | NaN

instantiation jsnum :: "{uminus, plus, minus, times, inverse, ord}"
begin

fun uminus_jsnum :: "jsnum \<Rightarrow> jsnum" where
  "- Num a = Num (- a)"
| "- PosInf = NegInf"
| "- NegInf = PosInf"
| "- NaN = NaN"

fun plus_jsnum :: "jsnum \<Rightarrow> jsnum \<Rightarrow> jsnum" where
  "Num a + Num b = Num (a + b)"
| "NaN + _ = NaN"
| "_ + NaN = NaN"
| "PosInf + NegInf = NaN"
| "NegInf + PosInf = NaN"
| "PosInf + _ = PosInf"
| "_ + PosInf = PosInf"
| "NegInf + _ = NegInf"
| "_ + NegInf = NegInf"

definition minus_jsnum :: "jsnum \<Rightarrow> jsnum \<Rightarrow> jsnum" where
  "minus_jsnum a b = a + (- b)"

text \<open>The sign of a product or quotient with an infinite result.\<close>

fun signed_inf :: "bool \<Rightarrow> jsnum" where
  "signed_inf True = PosInf"
| "signed_inf False = NegInf"

fun positive :: "jsnum \<Rightarrow> bool" where
  "positive (Num a) = (0 \<le> a)"
| "positive PosInf = True"
| "positive NegInf = False"
| "positive NaN = True"

fun times_jsnum :: "jsnum \<Rightarrow> jsnum \<Rightarrow> jsnum" where
  "Num a * Num b = Num (a * b)"
| "NaN * _ = NaN"
| "_ * NaN = NaN"
| "Num a * b = (if a = 0 then NaN else signed_inf ((0 < a) = positive b))"
| "a * Num b = (if b = 0 then NaN else signed_inf (positive a = (0 < b)))"
| "a * b = signed_inf (positive a = positive b)"

fun divide_jsnum :: "jsnum \<Rightarrow> jsnum \<Rightarrow> jsnum" where
  "divide_jsnum (Num a) (Num b) =
     (if b \<noteq> 0 then Num (a / b)
      else if a = 0 then NaN else signed_inf (0 < a))"
| "divide_jsnum NaN _ = NaN"
| "divide_jsnum _ NaN = NaN"
| "divide_jsnum (Num a) _ = Num 0"
| "divide_jsnum a (Num b) = signed_inf (positive a = (0 \<le> b))"
| "divide_jsnum _ _ = NaN"

definition inverse_jsnum :: "jsnum \<Rightarrow> jsnum" where
  "inverse_jsnum a = Num 1 div a"

text \<open>\<^verbatim>\<open>a < b\<close> and \<^verbatim>\<open>a <= b\<close>: false as soon as one side is \<^verbatim>\<open>NaN\<close>.\<close>

fun less_jsnum :: "jsnum \<Rightarrow> jsnum \<Rightarrow> bool" where
  "Num a < Num b = (a < b)"
| "NaN < _ = False"
| "_ < NaN = False"
| "_ < NegInf = False"
| "PosInf < _ = False"
| "_ < PosInf = True"
| "NegInf < _ = True"

fun less_eq_jsnum :: "jsnum \<Rightarrow> jsnum \<Rightarrow> bool" where
  "Num a \<le> Num b = (a \<le> b)"
| "NaN \<le> _ = False"
| "_ \<le> NaN = False"
| "NegInf \<le> _ = True"
| "_ \<le> PosInf = True"
| "_ \<le> NegInf = False"
| "PosInf \<le> _ = False"

instance ..

end

text \<open>\<^verbatim>\<open>Math.min\<close>, \<^verbatim>\<open>Math.max\<close>: \<^verbatim>\<open>NaN\<close> when an argument is \<^verbatim>\<open>NaN\<close>.\<close>

fun Math_min :: "jsnum \<Rightarrow> jsnum \<Rightarrow> jsnum" where
  "Math_min (Num a) (Num b) = Num (min a b)"
| "Math_min NaN _ = NaN"
| "Math_min _ NaN = NaN"
| "Math_min NegInf _ = NegInf"
| "Math_min _ NegInf = NegInf"
| "Math_min PosInf b = b"
| "Math_min a PosInf = a"

fun Math_max :: "jsnum \<Rightarrow> jsnum \<Rightarrow> jsnum" where
  "Math_max (Num a) (Num b) = Num (max a b)"
| "Math_max NaN _ = NaN"
| "Math_max _ NaN = NaN"
| "Math_max PosInf _ = PosInf"
| "Math_max _ PosInf = PosInf"
| "Math_max NegInf b = b"
| "Math_max a NegInf = a"

fun Math_exp :: "jsnum \<Rightarrow> jsnum" where
  "Math_exp (Num a) = Num (exp a)"
| "Math_exp PosInf = PosInf"
| "Math_exp NegInf = Num 0"
| "Math_exp NaN = NaN"

fun Math_sqrt :: "jsnum \<Rightarrow> jsnum" where
  "Math_sqrt (Num a) = (if a < 0 then NaN else Num (sqrt a))"
| "Math_sqrt PosInf = PosInf"
| "Math_sqrt NegInf = NaN"
| "Math_sqrt NaN = NaN"

section \<open>Physics engine (lib/physics.ts)\<close>

text \<open>
  The engine wraps a d3-force simulation. d3-force is a library outside the repository;
  of a simulation, the model keeps the current \<open>alpha\<close> and whether its timer runs,
  and the three library calls the engine makes act on them as the library documents:
  \<^verbatim>\<open>alpha(a)\<close> sets alpha, \<^verbatim>\<open>restart()\<close> restarts the timer, \<^verbatim>\<open>stop()\<close> stops it, and
  neither of the last two touches alpha. The forces and the integration of positions are
  not modelled.
\<close>

record simulation =
  alpha :: real
  running :: bool

definition sim_alpha :: "real \<Rightarrow> simulation \<Rightarrow> simulation" where
  "sim_alpha a s = s\<lparr>alpha := a\<rparr>"

definition sim_restart :: "simulation \<Rightarrow> simulation" where
  "sim_restart s = s\<lparr>running := True\<rparr>"

definition sim_stop :: "simulation \<Rightarrow> simulation" where
  "sim_stop s = s\<lparr>running := False\<rparr>"

text \<open>The private fields \<^verbatim>\<open>simulation\<close>, \<^verbatim>\<open>nodes\<close> and \<^verbatim>\<open>links\<close> of \<^verbatim>\<open>PhysicsEngine\<close>.\<close>

record engine =
  simulation :: simulation
  e_nodes :: "ref list"
  e_links :: "ref list"

definition stop :: "engine \<Rightarrow> engine" where
  "stop e = e\<lparr>simulation := sim_stop (simulation e)\<rparr>"

definition restart :: "engine \<Rightarrow> engine" where
  "restart e = e\<lparr>simulation := sim_restart (simulation e)\<rparr>"

section \<open>Canvas state and the world (components/GraphCanvas.tsx)\<close>

text \<open>The viewport \<^verbatim>\<open>{ k, tx, ty }\<close>.\<close>

record view =
  v_k :: jsnum
  v_tx :: jsnum
  v_ty :: jsnum

text \<open>What the handlers read of a wheel event and of a touch.\<close>

record wheelEvent =
  we_clientX :: real
  we_clientY :: real
  we_deltaX :: real
  we_deltaY :: real
  we_ctrlKey :: bool

record touch =
  t_identifier :: nat
  t_clientX :: real
  t_clientY :: real

text \<open>
  The callback handed to \<^verbatim>\<open>requestAnimationFrame\<close>, with the event or the touches its
  closure holds, and the two callbacks handed to \<^verbatim>\<open>setTimeout\<close>: the one of
  \<^verbatim>\<open>centerNode\<close>, whose closure holds the node object, and the one of \<^verbatim>\<open>handleWheel\<close>.
\<close>

datatype frame = WheelFrame wheelEvent | TouchMoveFrame "touch list"

datatype timeout = UnpinNode ref | WheelEnd

text \<open>
  The refs of the component, the \<^verbatim>\<open>dimensions\<close> state (width, height) and the canvas's
  bounding rectangle (left, top). \<open>rafIdRef\<close> is the animation frame that is requested
  and has not run; the pending wheel timeout is an entry of the world's timeouts.
\<close>

record canvas =
  viewRef :: view
  isPanningRef :: bool
  isInteractingRef :: bool
  lastPosRef :: "real \<times> real"
  touchesRef :: "nat \<rightharpoonup> real \<times> real"
  lastPinchDistanceRef :: real
  pendingWheelDeltaRef :: real
  rafIdRef :: "frame option"
  dimensions :: "real \<times> real"
  rect :: "real \<times> real"

text \<open>
  Everything the handlers of the canvas act on: the objects, the store, the component's
  refs, the physics engine (\<^verbatim>\<open>physicsRef.current\<close>, \<open>None\<close> while it is unset), the
  pending timeouts with the time each is due, the clock in milliseconds, the ids for
  which \<^verbatim>\<open>api.expandNode\<close> was called and has not settled, and the value of
  \<^verbatim>\<open>isExpandingNode\<close> that the registered handlers hold: the component reads it from the
  store when it renders, and the handlers' closures keep that value until the effect
  registers them again.
\<close>

record world =
  heap :: heap
  store :: store
  canvas :: canvas
  physicsRef :: "engine option"
  timeouts :: "(real \<times> timeout) list"
  now :: real
  requests :: "string list"
  handlerIsExpandingNode :: bool

text \<open>
  \<^verbatim>\<open>centerNode(nodeId)\<close>, with the engine \<open>e\<close> as \<^verbatim>\<open>this\<close>: it returns the engine and the
  world it leaves.
\<close>

definition centerNode :: "string \<Rightarrow> engine \<Rightarrow> world \<Rightarrow> engine \<times> world" where
  "centerNode nodeId e w =
     (case find (\<lambda>n. n_id (nodeObj (heap w) n) = nodeId) (e_nodes e) of
        None \<Rightarrow> (e, w)
      | Some node \<Rightarrow>
          (e\<lparr>simulation := sim_restart (sim_alpha 0.3 (simulation e))\<rparr>,
           w\<lparr>heap := (heap w)\<lparr>nodeObj := (nodeObj (heap w))
                  (node := (nodeObj (heap w) node)\<lparr>n_fx := Some 0, n_fy := Some 0\<rparr>)\<rparr>,
             timeouts := timeouts w @ [(now w + 1000, UnpinNode node)]\<rparr>))"

text \<open>\<^verbatim>\<open>if (physicsRef.current) physicsRef.current.stop()\<close>, and the same for restart.\<close>

definition physics_stop :: "world \<Rightarrow> world" where
  "physics_stop w = w\<lparr>physicsRef := map_option stop (physicsRef w)\<rparr>"

definition physics_restart :: "world \<Rightarrow> world" where
  "physics_restart w = w\<lparr>physicsRef := map_option restart (physicsRef w)\<rparr>"

text \<open>The bodies of the two timeout callbacks.\<close>

fun fire :: "timeout \<Rightarrow> world \<Rightarrow> world" where
  "fire (UnpinNode node) w =
     w\<lparr>heap := (heap w)\<lparr>nodeObj := (nodeObj (heap w))
            (node := (nodeObj (heap w) node)\<lparr>n_fx := None, n_fy := None\<rparr>)\<rparr>\<rparr>"
| "fire WheelEnd w =
     physics_restart (w\<lparr>canvas := (canvas w)\<lparr>isInteractingRef := False\<rparr>\<rparr>)"

text \<open>
  The clock advances by \<open>d\<close> milliseconds with no other event: the timeouts that are due
  run, the earlier first, and leave the list. (No callback sets a timeout.)
\<close>

definition advance :: "real \<Rightarrow> world \<Rightarrow> world" where
  "advance d w =
     (let t = now w + d;
          due = filter (\<lambda>(u, c). u \<le> t) (timeouts w);
          later = filter (\<lambda>(u, c). \<not> u \<le> t) (timeouts w)
      in fold fire (map snd (sort_key fst due)) (w\<lparr>now := t, timeouts := later\<rparr>))"

section \<open>Hit test and node radius (components/GraphCanvas.tsx)\<close>

text \<open>
  \<^verbatim>\<open>getNodeAt(clientX, clientY)\<close>: \<^verbatim>\<open>graphData.nodes.find(...)\<close> over the nodes of the store,
  with the viewport of \<open>viewRef\<close>. A node without position is passed over.
\<close>

definition getNodeAt :: "world \<Rightarrow> real \<Rightarrow> real \<Rightarrow> ref option" where
  "getNodeAt w cX cY =
     (let px = Num (cX - fst (rect (canvas w)));
          py = Num (cY - snd (rect (canvas w)));
          centerX = Num (fst (dimensions (canvas w)) / 2);
          centerY = Num (snd (dimensions (canvas w)) / 2);
          k = v_k (viewRef (canvas w));
          tx = v_tx (viewRef (canvas w));
          ty = v_ty (viewRef (canvas w))
      in find (\<lambda>n.
           let node = nodeObj (heap w) n in
           (case (n_x node, n_y node) of
              (Some x, Some y) \<Rightarrow>
                (let nx = centerX + tx + Num x * k;
                     ny = centerY + ty + Num y * k;
                     baseR = (if n_type node = Today then 15
                              else if n_type node = Center then 20 else 8);
                     r = Num baseR * (Num 0.6 + Num 0.4 * Math_max (Num 0.5) (Math_min (Num 2) k));
                     dx = px - nx;
                     dy = py - ny
                 in Math_sqrt (dx * dx + dy * dy) < r + Num 5)
            | _ \<Rightarrow> False))
         (nodes (graphData (store w))))"

text \<open>
  What \<^verbatim>\<open>render\<close> computes for a node it draws: the centre of the circle on the screen
  and \<^verbatim>\<open>radiusScaled\<close>. \<^verbatim>\<open>if (node.author_count)\<close> holds for a count that is present and
  not zero.
\<close>

definition screenPos :: "canvas \<Rightarrow> real \<Rightarrow> real \<Rightarrow> jsnum \<times> jsnum" where
  "screenPos c x y =
     (Num (fst (dimensions c) / 2) + v_tx (viewRef c) + Num x * v_k (viewRef c),
      Num (snd (dimensions c) / 2) + v_ty (viewRef c) + Num y * v_k (viewRef c))"

definition radiusScaled :: "node \<Rightarrow> jsnum \<Rightarrow> jsnum" where
  "radiusScaled node k =
     (let radius = (if n_type node = Today then 15 else if n_type node = Center then 20 else 8);
          radius = (case n_author_count node of
                      None \<Rightarrow> radius
                    | Some c \<Rightarrow> if c = 0 then radius else radius + min (c * 0.5) 8)
      in Num radius * (Num 0.6 + Num 0.4 * Math_max (Num 0.5) (Math_min (Num 2) k)))"

text \<open>
  The hit test as the specification words it: the first node, in the order of the node
  list, whose distance on the screen from the pointer is less than the radius it is drawn
  with plus the margin of 5.
\<close>

definition hitTest_spec :: "world \<Rightarrow> real \<Rightarrow> real \<Rightarrow> ref option" where
  "hitTest_spec w cX cY =
     find (\<lambda>n.
        let node = nodeObj (heap w) n in
        (case (n_x node, n_y node) of
           (Some x, Some y) \<Rightarrow>
             (let dx = Num (cX - fst (rect (canvas w))) - fst (screenPos (canvas w) x y);
                  dy = Num (cY - snd (rect (canvas w))) - snd (screenPos (canvas w) x y)
              in Math_sqrt (dx * dx + dy * dy)
                   < radiusScaled node (v_k (viewRef (canvas w))) + Num 5)
         | _ \<Rightarrow> False))
       (nodes (graphData (store w)))"

section \<open>Zoom and pan (components/GraphCanvas.tsx)\<close>

text \<open>The animation-frame callback of \<^verbatim>\<open>handleWheel\<close>.\<close>

definition wheelFrame :: "wheelEvent \<Rightarrow> canvas \<Rightarrow> canvas" where
  "wheelFrame e c =
     (let px = Num (we_clientX e - fst (rect c) - fst (dimensions c) / 2);
          py = Num (we_clientY e - snd (rect c) - snd (dimensions c) / 2);
          isTouchpadPinch = (we_ctrlKey e \<or> \<bar>we_deltaX e\<bar> > 0);
          factor = (if isTouchpadPinch
                    then Math_exp (Num (- pendingWheelDeltaRef c * 0.01))
                    else Math_exp (Num (- pendingWheelDeltaRef c * 0.002)));
          currentView = viewRef c;
          newK = Math_max (Num 0.3) (Math_min (Num 5) (v_k currentView * factor));
          scale = newK / v_k currentView;
          newTx = v_tx currentView + px * (Num 1 - scale);
          newTy = v_ty currentView + py * (Num 1 - scale)
      in c\<lparr>viewRef := \<lparr>v_k = newK, v_tx = newTx, v_ty = newTy\<rparr>,
           pendingWheelDeltaRef := 0\<rparr>)"

text \<open>The animation-frame callback of \<^verbatim>\<open>handleTouchMove\<close>.\<close>

definition touchMoveFrame :: "touch list \<Rightarrow> canvas \<Rightarrow> canvas" where
  "touchMoveFrame touches c =
     (case touches of
        [t1, t2] \<Rightarrow>
          (let distance = sqrt ((t_clientX t1 - t_clientX t2)\<^sup>2 + (t_clientY t1 - t_clientY t2)\<^sup>2);
               centerX = (t_clientX t1 + t_clientX t2) / 2;
               centerY = (t_clientY t1 + t_clientY t2) / 2;
               px = Num (centerX - fst (rect c) - fst (dimensions c) / 2);
               py = Num (centerY - snd (rect c) - snd (dimensions c) / 2);
               factor = Num distance / Num (lastPinchDistanceRef c);
               currentView = viewRef c;
               newK = Math_max (Num 0.3) (Math_min (Num 5) (v_k currentView * factor));
               scale = newK / v_k currentView;
               newTx = v_tx currentView + px * (Num 1 - scale);
               newTy = v_ty currentView + py * (Num 1 - scale)
           in c\<lparr>viewRef := \<lparr>v_k = newK, v_tx = newTx, v_ty = newTy\<rparr>,
                lastPinchDistanceRef := distance\<rparr>)
      | [t] \<Rightarrow>
          (if isPanningRef c
           then (let dx = t_clientX t - fst (lastPosRef c);
                     dy = t_clientY t - snd (lastPosRef c)
                 in c\<lparr>lastPosRef := (t_clientX t, t_clientY t),
                      viewRef := (viewRef c)\<lparr>v_tx := v_tx (viewRef c) + Num dx,
                                              v_ty := v_ty (viewRef c) + Num dy\<rparr>\<rparr>)
           else c)
      | _ \<Rightarrow> c)"

text \<open>The animation frame runs the callback that is requested, if there is one.\<close>

definition animationFrame :: "world \<Rightarrow> world" where
  "animationFrame w =
     (case rafIdRef (canvas w) of
        None \<Rightarrow> w
      | Some (WheelFrame e) \<Rightarrow> w\<lparr>canvas := wheelFrame e ((canvas w)\<lparr>rafIdRef := None\<rparr>)\<rparr>
      | Some (TouchMoveFrame ts) \<Rightarrow> w\<lparr>canvas := touchMoveFrame ts ((canvas w)\<lparr>rafIdRef := None\<rparr>)\<rparr>)"

text \<open>
  \<^verbatim>\<open>handleWheel\<close>: the delta is accumulated, the engine is stopped when the interaction
  starts, the pending wheel timeout and the requested frame are replaced.
\<close>

definition handleWheel :: "wheelEvent \<Rightarrow> world \<Rightarrow> world" where
  "handleWheel e w =
     (let w1 = w\<lparr>canvas := (canvas w)\<lparr>pendingWheelDeltaRef :=
                    pendingWheelDeltaRef (canvas w) + we_deltaY e\<rparr>\<rparr>;
          w2 = (if \<not> isInteractingRef (canvas w1)
                then physics_stop (w1\<lparr>canvas := (canvas w1)\<lparr>isInteractingRef := True\<rparr>\<rparr>)
                else w1);
          w3 = w2\<lparr>timeouts := filter (\<lambda>(u, c). c \<noteq> WheelEnd) (timeouts w2)\<rparr>;
          w4 = w3\<lparr>canvas := (canvas w3)\<lparr>rafIdRef := Some (WheelFrame e)\<rparr>\<rparr>
      in w4\<lparr>timeouts := timeouts w4 @ [(now w4 + 150, WheelEnd)]\<rparr>)"

definition handleMouseDown :: "nat \<Rightarrow> real \<Rightarrow> real \<Rightarrow> world \<Rightarrow> world" where
  "handleMouseDown button cX cY w =
     (if button \<noteq> 0 then w
      else case getNodeAt w cX cY of
             Some node \<Rightarrow> w
           | None \<Rightarrow>
               physics_stop (w\<lparr>canvas := (canvas w)\<lparr>isPanningRef := True,
                 isInteractingRef := True, lastPosRef := (cX, cY)\<rparr>\<rparr>))"

definition handleMouseUp :: "world \<Rightarrow> world" where
  "handleMouseUp w =
     (if isPanningRef (canvas w)
      then physics_restart (w\<lparr>canvas := (canvas w)\<lparr>isPanningRef := False,
             isInteractingRef := False\<rparr>\<rparr>)
      else w)"

definition handleTouchStart :: "touch list \<Rightarrow> world \<Rightarrow> world" where
  "handleTouchStart touches w =
     (let w1 = w\<lparr>canvas := (canvas w)\<lparr>touchesRef :=
                    fold (\<lambda>t m. m(t_identifier t \<mapsto> (t_clientX t, t_clientY t))) touches
                      (touchesRef (canvas w))\<rparr>\<rparr>
      in case touches of
           [t1, t2] \<Rightarrow>
             (let distance = sqrt ((t_clientX t1 - t_clientX t2)\<^sup>2 + (t_clientY t1 - t_clientY t2)\<^sup>2)
              in physics_stop (w1\<lparr>canvas := (canvas w1)\<lparr>lastPinchDistanceRef := distance,
                   isInteractingRef := True\<rparr>\<rparr>))
         | [t] \<Rightarrow>
             (case getNodeAt w1 (t_clientX t) (t_clientY t) of
                Some node \<Rightarrow> w1
              | None \<Rightarrow>
                  physics_stop (w1\<lparr>canvas := (canvas w1)\<lparr>isPanningRef := True,
                    isInteractingRef := True, lastPosRef := (t_clientX t, t_clientY t)\<rparr>\<rparr>))
         | _ \<Rightarrow> w1)"

definition handleTouchMove :: "touch list \<Rightarrow> world \<Rightarrow> world" where
  "handleTouchMove touches w =
     w\<lparr>canvas := (canvas w)\<lparr>rafIdRef := Some (TouchMoveFrame touches)\<rparr>\<rparr>"

section \<open>Click and expansion (components/GraphCanvas.tsx)\<close>

text \<open>
  \<^verbatim>\<open>handleClick\<close> up to its \<^verbatim>\<open>await\<close>. The guard \<^verbatim>\<open>node && !isExpandingNode\<close> reads the
  value its closure holds, not the store. The call of \<^verbatim>\<open>api.expandNode(node.id)\<close> is
  recorded in \<open>requests\<close>.
\<close>

definition handleClick :: "real \<Rightarrow> real \<Rightarrow> world \<Rightarrow> world" where
  "handleClick cX cY w =
     (case getNodeAt w cX cY of
        None \<Rightarrow> w
      | Some n \<Rightarrow>
          if handlerIsExpandingNode w then w
          else
            (let node = nodeObj (heap w) n;
                 w1 = w\<lparr>store := (store w)\<lparr>selectedPaper := Some (n_id node),
                        cameraTarget := Some (case n_x node of Some x \<Rightarrow> x | None \<Rightarrow> 0,
                                              case n_y node of Some y \<Rightarrow> y | None \<Rightarrow> 0)\<rparr>\<rparr>;
                 w2 = (case physicsRef w1 of
                         None \<Rightarrow> w1
                       | Some e \<Rightarrow> (case centerNode (n_id node) e w1 of
                                      (e', w') \<Rightarrow> w'\<lparr>physicsRef := Some e'\<rparr>))
             in w2\<lparr>store := (store w2)\<lparr>isExpandingNode := True,
                                          expandingNodeId := Some (n_id node)\<rparr>,
                   requests := requests w2 @ [n_id node]\<rparr>))"

text \<open>
  The component has rendered again and the effect that registers the handlers has run
  (\<open>isExpandingNode\<close> is among its dependencies): the handlers hold the flag as the
  store has it now. The closure holds the node list and the dimensions in the same way;
  for these the model reads the current values.
\<close>

definition registerHandlers :: "world \<Rightarrow> world" where
  "registerHandlers w = w\<lparr>handlerIsExpandingNode := isExpandingNode (store w)\<rparr>"

text \<open>
  The rest of \<^verbatim>\<open>handleClick\<close>, for the click on the node with id \<open>nodeId\<close>: when the
  request resolves with \<open>expandData\<close> (the response's objects are in the heap, the data
  holds their references), and when it is rejected.
\<close>

definition expandResolved :: "string \<Rightarrow> graphData \<Rightarrow> world \<Rightarrow> world" where
  "expandResolved nodeId expandData w =
     (case addGraphData expandData (heap w, store w) of
        (h, st) \<Rightarrow>
          w\<lparr>heap := h,
            store := st\<lparr>isExpandingNode := False, expandingNodeId := None\<rparr>,
            requests := remove1 nodeId (requests w)\<rparr>)"

definition expandRejected :: "string \<Rightarrow> world \<Rightarrow> world" where
  "expandRejected nodeId w =
     w\<lparr>store := (store w)\<lparr>isExpandingNode := False, expandingNodeId := None\<rparr>,
       requests := remove1 nodeId (requests w)\<rparr>"

section \<open>The notions of the claims\<close>

text \<open>
  The merge as the specification words it, for comparison with \<open>addGraphData\<close>: nodes
  are deduplicated by id and links by the ordered pair (source id, target id), existing
  entries first, then the incoming entries that are not already present.
\<close>

definition linkPair :: "heap \<Rightarrow> link \<Rightarrow> string \<times> string" where
  "linkPair h l = (endpointId h (l_source l), endpointId h (l_target l))"

definition merge_spec :: "heap \<Rightarrow> graphData \<Rightarrow> graphData \<Rightarrow> graphData" where
  "merge_spec h existing incoming =
     \<lparr>nodes = nodes existing @
        filter (\<lambda>n. n_id (nodeObj h n) \<notin> set (map (\<lambda>m. n_id (nodeObj h m)) (nodes existing)))
          (nodes incoming),
      links = links existing @
        filter (\<lambda>l. linkPair h (linkObj h l) \<notin> set (map (\<lambda>m. linkPair h (linkObj h m)) (links existing)))
          (links incoming)\<rparr>"

text \<open>
  A graph has no dangling link when the source id and the target id of each of its links
  are ids of its nodes.
\<close>

definition nodeIds :: "heap \<Rightarrow> ref list \<Rightarrow> string set" where
  "nodeIds h ns = set (map (\<lambda>n. n_id (nodeObj h n)) ns)"

definition resolves :: "heap \<Rightarrow> string set \<Rightarrow> ref \<Rightarrow> bool" where
  "resolves h ids l \<longleftrightarrow>
     endpointId h (l_source (linkObj h l)) \<in> ids \<and> endpointId h (l_target (linkObj h l)) \<in> ids"

definition noDangling :: "heap \<Rightarrow> graphData \<Rightarrow> bool" where
  "noDangling h g = list_all (resolves h (nodeIds h (nodes g))) (links g)"

text \<open>
  The scale is within its bounds when \<^verbatim>\<open>0.3 <= k && k <= 5\<close>.
\<close>

definition inBounds :: "jsnum \<Rightarrow> bool" where
  "inBounds k \<longleftrightarrow> Num 0.3 \<le> k \<and> k \<le> Num 5"

text \<open>
  The world coordinates drawn at the offset \<open>p\<close> from the centre of the canvas: the
  renderer puts the world point \<open>(x, y)\<close> at centre + translate + \<open>(x, y)\<close> \<times> scale.
\<close>

definition worldUnder :: "view \<Rightarrow> jsnum \<times> jsnum \<Rightarrow> jsnum \<times> jsnum" where
  "worldUnder v p = ((fst p - v_tx v) / v_k v, (snd p - v_ty v) / v_k v)"

subsection \<open>Example objects\<close>

text \<open>
  A node as the graph service delivers it when it sends the two required fields only, and
  a link between two ids; a store in its initial state holding a given graph.
\<close>

definition jsonNode :: "string \<Rightarrow> node_type \<Rightarrow> node" where
  "jsonNode i t =
     \<lparr>n_id = i, n_title = None, n_summary = None, n_domain = None, n_type = t,
      n_first_author = None, n_author_count = None, n_year = None,
      n_key_contributions = None, n_methodology = None, n_x = None, n_y = None,
      n_fx = None, n_fy = None, n_vx = None, n_vy = None\<rparr>"

definition jsonLink :: "string \<Rightarrow> string \<Rightarrow> link" where
  "jsonLink s t = \<lparr>l_source = Id s, l_target = Id t, l_type = CITES\<rparr>"

definition storeWith :: "graphData \<Rightarrow> store" where
  "storeWith g =
     \<lparr>graphData = g, selectedPaper = None, isExpandingNode = False, expandingNodeId = None,
      hoveredNode = None, cameraTarget = None\<rparr>"

text \<open>
  The scenario of the specification: the objects A, B (existing), B, C (incoming), the
  existing link A\<rightarrow>B and the incoming link A\<rightarrow>C.
\<close>

definition heapABC :: heap where
  "heapABC =
     \<lparr>nodeObj = (\<lambda>_. jsonNode [] Cited)
        (0 := jsonNode ''A'' Today, 1 := jsonNode ''B'' Cited,
         2 := jsonNode ''B'' Cited, 3 := jsonNode ''C'' Expanded),
      linkObj = (\<lambda>_. jsonLink [] [])
        (0 := jsonLink ''A'' ''B'', 1 := jsonLink ''A'' ''C'')\<rparr>"

text \<open>
  Ids with a hyphen: the existing link \<open>a-b\<close>\<rightarrow>\<open>c\<close> and the incoming link
  \<open>a\<close>\<rightarrow>\<open>b-c\<close> are different ordered pairs with the same key \<open>a-b-c\<close>.
\<close>

definition heapHyphen :: heap where
  "heapHyphen =
     \<lparr>nodeObj = (\<lambda>_. jsonNode [] Cited)
        (0 := jsonNode ''a-b'' Cited, 1 := jsonNode ''c'' Cited,
         2 := jsonNode ''a'' Cited, 3 := jsonNode ''b-c'' Cited),
      linkObj = (\<lambda>_. jsonLink [] [])
        (0 := jsonLink ''a-b'' ''c'', 1 := jsonLink ''a'' ''b-c'')\<rparr>"

text \<open>A single link X\<rightarrow>Y and no node at all.\<close>

definition heapDangling :: heap where
  "heapDangling =
     \<lparr>nodeObj = (\<lambda>_. jsonNode [] Cited),
      linkObj = (\<lambda>_. jsonLink ''X'' ''Y'')\<rparr>"

text \<open>
  The component as it is mounted: the initial view, no interaction, a canvas of 800 by
  600 at the top left of the window. An engine with a given alpha whose timer runs. A
  world with no timeout and no request pending, the engine holding the nodes and links of
  the store, the handlers registered with the store's flag.
\<close>

definition canvas0 :: canvas where
  "canvas0 =
     \<lparr>viewRef = \<lparr>v_k = Num 1, v_tx = Num 0, v_ty = Num 0\<rparr>,
      isPanningRef = False, isInteractingRef = False, lastPosRef = (0, 0),
      touchesRef = Map.empty, lastPinchDistanceRef = 0, pendingWheelDeltaRef = 0,
      rafIdRef = None, dimensions = (800, 600), rect = (0, 0)\<rparr>"

definition engineAt :: "real \<Rightarrow> ref list \<Rightarrow> ref list \<Rightarrow> engine" where
  "engineAt a ns ls = \<lparr>simulation = \<lparr>alpha = a, running = True\<rparr>, e_nodes = ns, e_links = ls\<rparr>"

definition worldWith :: "heap \<Rightarrow> graphData \<Rightarrow> canvas \<Rightarrow> real \<Rightarrow> world" where
  "worldWith h g c a =
     \<lparr>heap = h, store = storeWith g, canvas = c,
      physicsRef = Some (engineAt a (nodes g) (links g)),
      timeouts = [], now = 0, requests = [], handlerIsExpandingNode = False\<rparr>"

text \<open>
  A cited paper P with sixteen authors at the origin; and two papers N and M, N at the
  origin and M 200 to its right.
\<close>

definition heapAuthors :: heap where
  "heapAuthors =
     \<lparr>nodeObj = (\<lambda>_. (jsonNode ''P'' Cited)\<lparr>n_author_count := Some 16,
                                               n_x := Some 0, n_y := Some 0\<rparr>),
      linkObj = (\<lambda>_. jsonLink [] [])\<rparr>"

definition heapNM :: heap where
  "heapNM =
     \<lparr>nodeObj = (\<lambda>_. (jsonNode ''N'' Cited)\<lparr>n_x := Some 0, n_y := Some 0\<rparr>)
        (1 := (jsonNode ''M'' Cited)\<lparr>n_x := Some 200, n_y := Some 0\<rparr>),
      linkObj = (\<lambda>_. jsonLink [] [])\<rparr>"

text \<open>The canvas showing N and M, with the engine at alpha 0.5.\<close>

definition worldNM :: world where
  "worldNM = worldWith heapNM \<lparr>nodes = [0, 1], links = []\<rparr> canvas0 0.5"

text \<open>Two touches at the same point of the screen.\<close>

definition touchesCoincident :: "touch list" where
  "touchesCoincident =
     [\<lparr>t_identifier = 0, t_clientX = 100, t_clientY = 100\<rparr>,
      \<lparr>t_identifier = 1, t_clientX = 100, t_clientY = 100\<rparr>]"

text \<open>A turn of the mouse wheel by \<open>deltaY\<close> with the pointer at the centre of the canvas.\<close>

definition wheelAtCentre :: "real \<Rightarrow> wheelEvent" where
  "wheelAtCentre dy =
     \<lparr>we_clientX = 400, we_clientY = 300, we_deltaX = 0, we_deltaY = dy, we_ctrlKey = False\<rparr>"

section \<open>Properties of the merge\<close>

lemma addGraphData_heap: "fst (addGraphData data (h, st)) = h"
  by (simp add: addGraphData_def Let_def)

lemma addGraphData_nodes:
  "nodes (graphData (snd (addGraphData data (h, st)))) =
     nodes (graphData st) @
     filter (\<lambda>n. n_id (nodeObj h n) \<notin> (\<lambda>m. n_id (nodeObj h m)) ` set (nodes (graphData st)))
       (nodes data)"
  by (simp add: addGraphData_def Let_def)

lemma addGraphData_links:
  "links (graphData (snd (addGraphData data (h, st)))) =
     links (graphData st) @
     filter (\<lambda>l. linkId h (linkObj h l) \<notin> (\<lambda>m. linkId h (linkObj h m)) ` set (links (graphData st)))
       (links data)"
  by (simp add: addGraphData_def Let_def)

lemma addGraphData_nodes_spec:
  "nodes (graphData (snd (addGraphData data (h, st)))) = nodes (merge_spec h (graphData st) data)"
  by (simp add: addGraphData_nodes merge_spec_def)

lemma filter_nodes_self:
  "filter (\<lambda>n. f n \<notin> f ` set xs) xs = []"
  by (induction xs) auto

lemma key_split_unique:
  "CHR ''-'' \<notin> set a \<Longrightarrow> CHR ''-'' \<notin> set c \<Longrightarrow> a @ ''-'' @ b = c @ ''-'' @ d
     \<Longrightarrow> a = c \<and> b = d"
proof (induction a arbitrary: c)
  case Nil
  then show ?case by (cases c) auto
next
  case (Cons x a)
  then show ?case by (cases c) auto
qed

text \<open>
  Where no source id contains a hyphen, the key decides the ordered pair, and
  \<open>addGraphData\<close> is the merge of the specification.
\<close>

lemma linkId_eq_iff_pair:
  assumes "CHR ''-'' \<notin> set (endpointId h (l_source l))"
      and "CHR ''-'' \<notin> set (endpointId h (l_source m))"
  shows "linkId h l = linkId h m \<longleftrightarrow> linkPair h l = linkPair h m"
  using assms key_split_unique [of "endpointId h (l_source l)" "endpointId h (l_source m)"]
  by (auto simp: linkId_def linkPair_def)

lemma addGraphData_is_merge_spec:
  assumes ex: "\<forall>l \<in> set (links (graphData st)). CHR ''-'' \<notin> set (endpointId h (l_source (linkObj h l)))"
      and inc: "\<forall>l \<in> set (links data). CHR ''-'' \<notin> set (endpointId h (l_source (linkObj h l)))"
  shows "graphData (snd (addGraphData data (h, st))) = merge_spec h (graphData st) data"
proof -
  have "filter (\<lambda>l. linkId h (linkObj h l) \<notin> (\<lambda>m. linkId h (linkObj h m)) ` set (links (graphData st))) (links data)
      = filter (\<lambda>l. linkPair h (linkObj h l) \<notin> (\<lambda>m. linkPair h (linkObj h m)) ` set (links (graphData st))) (links data)"
  proof (rule filter_cong [OF refl])
    fix l assume l: "l \<in> set (links data)"
    have "\<And>m. m \<in> set (links (graphData st)) \<Longrightarrow>
            linkId h (linkObj h l) = linkId h (linkObj h m) \<longleftrightarrow>
            linkPair h (linkObj h l) = linkPair h (linkObj h m)"
      using ex inc l by (intro linkId_eq_iff_pair) auto
    then show "(linkId h (linkObj h l) \<notin> (\<lambda>m. linkId h (linkObj h m)) ` set (links (graphData st)))
             = (linkPair h (linkObj h l) \<notin> (\<lambda>m. linkPair h (linkObj h m)) ` set (links (graphData st)))"
      by (auto simp: image_iff)
  qed
  then show ?thesis
    by (simp add: addGraphData_def merge_spec_def Let_def)
qed

lemma scenario_ABC:
  "graphData (snd (addGraphData \<lparr>nodes = [2, 3], links = [1]\<rparr>
       (heapABC, storeWith \<lparr>nodes = [0, 1], links = [0]\<rparr>)))
     = \<lparr>nodes = [0, 1, 3], links = [0, 1]\<rparr>"
  by (simp add: addGraphData_def Let_def heapABC_def storeWith_def jsonNode_def jsonLink_def
      linkId_def endpointId_def)

lemma scenario_ABC_resend:
  "graphData (snd (addGraphData \<lparr>nodes = [2, 3], links = [0, 1]\<rparr>
       (heapABC, storeWith \<lparr>nodes = [0, 1], links = [0]\<rparr>)))
     = \<lparr>nodes = [0, 1, 3], links = [0, 1]\<rparr>"
  by (simp add: addGraphData_def Let_def heapABC_def storeWith_def jsonNode_def jsonLink_def
      linkId_def endpointId_def)

text \<open>
  C1. The nodes are merged as claimed (\<open>addGraphData_nodes_spec\<close>), and so are the
  links of the scenario (\<open>scenario_ABC\<close>) and of every merge in which no source id has a
  hyphen (\<open>addGraphData_is_merge_spec\<close>). But the links are deduplicated by the string
  \<open>source-target\<close>, not by the ordered pair: with the existing link \<open>a-b\<close>\<rightarrow>\<open>c\<close>, the
  incoming link \<open>a\<close>\<rightarrow>\<open>b-c\<close> is a new ordered pair, which the merge of the claim appends
  and \<open>addGraphData\<close> drops.
\<close>

theorem addGraphData_drops_new_pair:
  "links (graphData (snd (addGraphData \<lparr>nodes = [2, 3], links = [1]\<rparr>
       (heapHyphen, storeWith \<lparr>nodes = [0, 1], links = [0]\<rparr>)))) = [0]
   \<and> links (merge_spec heapHyphen \<lparr>nodes = [0, 1], links = [0]\<rparr> \<lparr>nodes = [2, 3], links = [1]\<rparr>)
       = [0, 1]
   \<and> linkPair heapHyphen (linkObj heapHyphen 1) = (''a'', ''b-c'')
   \<and> linkPair heapHyphen (linkObj heapHyphen 0) = (''a-b'', ''c'')"
  by (simp add: addGraphData_def merge_spec_def Let_def heapHyphen_def storeWith_def
      jsonNode_def jsonLink_def linkId_def linkPair_def endpointId_def)

text \<open>
  C2. Merging a graph into itself leaves the store as it was; every merge keeps the
  existing nodes and links as a prefix of the result, so that no entry is removed and
  neither count decreases.
\<close>

theorem addGraphData_idempotent_monotone:
  "addGraphData (graphData st) (h, st) = (h, st)
   \<and> length (nodes (graphData st)) \<le> length (nodes (graphData (snd (addGraphData data (h, st)))))
   \<and> length (links (graphData st)) \<le> length (links (graphData (snd (addGraphData data (h, st)))))
   \<and> take (length (nodes (graphData st))) (nodes (graphData (snd (addGraphData data (h, st)))))
       = nodes (graphData st)
   \<and> take (length (links (graphData st))) (links (graphData (snd (addGraphData data (h, st)))))
       = links (graphData st)"
proof -
  have "addGraphData (graphData st) (h, st) = (h, st)"
    by (simp add: addGraphData_def Let_def filter_nodes_self)
  then show ?thesis
    by (simp add: addGraphData_nodes addGraphData_links)
qed


lemma nodeIds_merged:
  "nodeIds h (nodes (graphData (snd (addGraphData data (h, st)))))
     = nodeIds h (nodes (graphData st)) \<union> nodeIds h (nodes data)"
  by (auto simp: addGraphData_nodes nodeIds_def)

lemma resolves_mono: "resolves h A l \<Longrightarrow> A \<subseteq> B \<Longrightarrow> resolves h B l"
  by (auto simp: resolves_def)

text \<open>
  C3. \<open>addGraphData\<close> makes no endpoint check. Merging the single link X\<rightarrow>Y into the
  empty graph admits it, although the merged graph has no node.
\<close>

theorem addGraphData_admits_dangling:
  "\<not> noDangling heapDangling
       (graphData (snd (addGraphData \<lparr>nodes = [], links = [0]\<rparr>
          (heapDangling, storeWith \<lparr>nodes = [], links = []\<rparr>))))"
  by (simp add: addGraphData_def Let_def noDangling_def resolves_def nodeIds_def
      storeWith_def)

text \<open>
  C3, as amended. The merged links are the existing links followed by the incoming links
  whose key is not the key of an existing link: a link is admitted by its key alone,
  whatever its endpoints and whatever the node lists are. The merged graph has no
  dangling link when the existing graph has none and the endpoints of every incoming link
  are ids of existing or incoming nodes.
\<close>

theorem addGraphData_admits_by_key:
  "links (graphData (snd (addGraphData data (h, st))))
     = links (graphData st) @
       filter (\<lambda>l. linkId h (linkObj h l)
                 \<notin> set (map (\<lambda>m. linkId h (linkObj h m)) (links (graphData st))))
         (links data)
   \<and> links (graphData (snd (addGraphData (data\<lparr>nodes := ns\<rparr>)
         (h, st\<lparr>graphData := (graphData st)\<lparr>nodes := ms\<rparr>\<rparr>))))
       = links (graphData (snd (addGraphData data (h, st))))
   \<and> (noDangling h (graphData st)
        \<and> list_all (resolves h (nodeIds h (nodes (graphData st)) \<union> nodeIds h (nodes data)))
              (links data)
      \<longrightarrow> noDangling h (graphData (snd (addGraphData data (h, st)))))"
proof (intro conjI impI)
  show "links (graphData (snd (addGraphData data (h, st))))
     = links (graphData st) @
       filter (\<lambda>l. linkId h (linkObj h l)
                 \<notin> set (map (\<lambda>m. linkId h (linkObj h m)) (links (graphData st))))
         (links data)"
    by (simp add: addGraphData_links)
next
  show "links (graphData (snd (addGraphData (data\<lparr>nodes := ns\<rparr>)
            (h, st\<lparr>graphData := (graphData st)\<lparr>nodes := ms\<rparr>\<rparr>))))
         = links (graphData (snd (addGraphData data (h, st))))"
    by (simp add: addGraphData_links)
next
  let ?ids = "nodeIds h (nodes (graphData st)) \<union> nodeIds h (nodes data)"
  assume a: "noDangling h (graphData st) \<and> list_all (resolves h ?ids) (links data)"
  then have "list_all (resolves h ?ids) (links (graphData st))"
    by (auto simp: noDangling_def list_all_iff intro: resolves_mono)
  moreover have "list_all (resolves h ?ids)
      (filter (\<lambda>l. linkId h (linkObj h l) \<notin> (\<lambda>m. linkId h (linkObj h m)) ` set (links (graphData st)))
         (links data))"
    using a by (simp add: list_all_iff)
  ultimately show "noDangling h (graphData (snd (addGraphData data (h, st))))"
    unfolding noDangling_def nodeIds_merged by (simp add: addGraphData_links)
qed

theorem addGraphData_admits_by_key_witness:
  "noDangling heapABC (graphData (storeWith \<lparr>nodes = [0, 1], links = [0]\<rparr>))
   \<and> list_all (resolves heapABC
        (nodeIds heapABC (nodes (graphData (storeWith \<lparr>nodes = [0, 1], links = [0]\<rparr>)))
           \<union> nodeIds heapABC (nodes \<lparr>nodes = [2, 3], links = [1]\<rparr>)))
        (links \<lparr>nodes = [2, 3], links = [1]\<rparr>)
   \<and> noDangling heapABC (graphData (snd (addGraphData \<lparr>nodes = [2, 3], links = [1]\<rparr>
        (heapABC, storeWith \<lparr>nodes = [0, 1], links = [0]\<rparr>))))"
proof -
  have a: "noDangling heapABC (graphData (storeWith \<lparr>nodes = [0, 1], links = [0]\<rparr>))"
    by (simp add: noDangling_def resolves_def nodeIds_def storeWith_def heapABC_def
        jsonNode_def jsonLink_def endpointId_def)
  have b: "list_all (resolves heapABC
        (nodeIds heapABC (nodes (graphData (storeWith \<lparr>nodes = [0, 1], links = [0]\<rparr>)))
           \<union> nodeIds heapABC (nodes \<lparr>nodes = [2, 3], links = [1]\<rparr>)))
        (links \<lparr>nodes = [2, 3], links = [1]\<rparr>)"
    by (simp add: resolves_def nodeIds_def storeWith_def heapABC_def
        jsonNode_def jsonLink_def endpointId_def)
  from addGraphData_admits_by_key [of "\<lparr>nodes = [2, 3], links = [1]\<rparr>" heapABC
         "storeWith \<lparr>nodes = [0, 1], links = [0]\<rparr>" "[2, 3]" "[0, 1]"] a b
  show ?thesis by blast
qed

text \<open>
  C10. \<open>addGraphData\<close> leaves the heap as it is, so every node object and every link
  object keeps all its fields; the merged arrays are the existing arrays, the same
  references in the same order, followed by references taken from the incoming data; and
  no other field of the store changes.
\<close>

theorem addGraphData_frame:
  "fst (addGraphData data (h, st)) = h
   \<and> (\<exists>newNodes newLinks.
        graphData (snd (addGraphData data (h, st)))
          = \<lparr>nodes = nodes (graphData st) @ newNodes, links = links (graphData st) @ newLinks\<rparr>
        \<and> set newNodes \<subseteq> set (nodes data) \<and> set newLinks \<subseteq> set (links data))
   \<and> (snd (addGraphData data (h, st)))\<lparr>graphData := graphData st\<rparr> = st"
proof -
  have "\<exists>newNodes newLinks.
        graphData (snd (addGraphData data (h, st)))
          = \<lparr>nodes = nodes (graphData st) @ newNodes, links = links (graphData st) @ newLinks\<rparr>
        \<and> set newNodes \<subseteq> set (nodes data) \<and> set newLinks \<subseteq> set (links data)"
    by (simp add: addGraphData_def Let_def)
  moreover have "(snd (addGraphData data (h, st)))\<lparr>graphData := graphData st\<rparr> = st"
    by (simp add: addGraphData_def Let_def)
  ultimately show ?thesis
    by (simp add: addGraphData_heap)
qed

section \<open>Properties of the viewport\<close>

lemma inBounds_Num: "inBounds (Num r) \<longleftrightarrow> 0.3 \<le> r \<and> r \<le> 5"
  by (simp add: inBounds_def)

lemma inBounds_cases: "inBounds k \<Longrightarrow> \<exists>r. k = Num r \<and> 0.3 \<le> r \<and> r \<le> 5"
  by (cases k) (simp_all add: inBounds_def)

lemma clamp_Num: "inBounds (Math_max (Num 0.3) (Math_min (Num 5) (Num a)))"
  by (simp add: inBounds_def)

lemma clamp_PosInf: "Math_max (Num 0.3) (Math_min (Num 5) PosInf) = Num 5"
  by simp

lemma wheelFrame_inBounds:
  "v_k (viewRef c) = Num r \<Longrightarrow> inBounds (v_k (viewRef (wheelFrame e c)))"
  by (simp add: wheelFrame_def Let_def inBounds_def)

lemma touchMoveFrame_inBounds:
  assumes "v_k (viewRef c) = Num r" "0 < r"
      and "t_clientX t1 \<noteq> t_clientX t2 \<or> t_clientY t1 \<noteq> t_clientY t2 \<or> lastPinchDistanceRef c \<noteq> 0"
  shows "inBounds (v_k (viewRef (touchMoveFrame [t1, t2] c)))"
proof (cases "lastPinchDistanceRef c = 0")
  case False
  then show ?thesis using assms(1) by (simp add: touchMoveFrame_def Let_def inBounds_def)
next
  case True
  then have pos: "0 < (t_clientX t1 - t_clientX t2)\<^sup>2 + (t_clientY t1 - t_clientY t2)\<^sup>2"
    using assms(3) by (auto simp: sum_power2_gt_zero_iff)
  have "Num (sqrt ((t_clientX t1 - t_clientX t2)\<^sup>2 + (t_clientY t1 - t_clientY t2)\<^sup>2))
          / Num (lastPinchDistanceRef c) = PosInf"
    using True assms(3) pos by auto
  then show ?thesis using assms(1,2)
    by (simp add: touchMoveFrame_def Let_def inBounds_def)
qed

lemma touchMoveFrame_pan_keeps_scale:
  "v_k (viewRef (touchMoveFrame [t] c)) = v_k (viewRef c)"
  by (simp add: touchMoveFrame_def Let_def)

lemma touchMoveFrame_coincident:
  assumes "t_clientX t1 = t_clientX t2" "t_clientY t1 = t_clientY t2" "lastPinchDistanceRef c = 0"
  shows "v_k (viewRef (touchMoveFrame [t1, t2] c)) = NaN"
  using assms by (cases "v_k (viewRef c)") (simp_all add: touchMoveFrame_def Let_def)

text \<open>
  C4. The clamp keeps the scale within [0.3, 5] after a wheel or trackpad step, and after
  a pinch step unless the two touches coincide and the last pinch distance is 0
  (lemmas \<open>wheelFrame_inBounds\<close>, \<open>touchMoveFrame_inBounds\<close>). In that case the factor
  is 0/0: a touch start with two touches at one point sets the last pinch distance to 0,
  and the next touch move with the touches still at one point makes the scale
  \<^verbatim>\<open>NaN\<close>, which \<^verbatim>\<open>Math.min\<close> and \<^verbatim>\<open>Math.max\<close> pass on.
\<close>

theorem pinch_coincident_touches:
  "v_k (viewRef (canvas (animationFrame (handleTouchMove touchesCoincident
      (handleTouchStart touchesCoincident
         (worldWith heapABC \<lparr>nodes = [0, 1], links = [0]\<rparr> canvas0 0.5)))))) = NaN
   \<and> \<not> inBounds (v_k (viewRef (canvas (animationFrame (handleTouchMove touchesCoincident
      (handleTouchStart touchesCoincident
         (worldWith heapABC \<lparr>nodes = [0, 1], links = [0]\<rparr> canvas0 0.5)))))))
   \<and> inBounds (v_k (viewRef (canvas (worldWith heapABC \<lparr>nodes = [0, 1], links = [0]\<rparr> canvas0 0.5))))"
  by (simp add: animationFrame_def handleTouchMove_def handleTouchStart_def touchesCoincident_def
      worldWith_def canvas0_def physics_stop_def touchMoveFrame_def Let_def inBounds_def)

lemma exp2_ge5: "5 \<le> exp (2::real)"
  using exp_lower_Taylor_quadratic [of "2::real"] by simp

lemma worldUnder_screen:
  assumes "v_k v = Num k" "k \<noteq> 0" "v_tx v = Num tx" "v_ty v = Num ty"
  shows "worldUnder v (v_tx v + Num x * v_k v, v_ty v + Num y * v_k v) = (Num x, Num y)"
  using assms by (simp add: worldUnder_def minus_jsnum_def)

text \<open>
  C5. With the view translated by 100 and scale 1, a wheel turn of -1000 with the
  pointer at the centre of the canvas clamps the scale to 5 and leaves the translation
  at 100: the world point under the pointer was -100 and is -20 afterwards. The update
  \<open>translate + p \<times> (1 - k_new / k_old)\<close> keeps the world point under the pointer only
  when the translation is zero (lemma \<open>wheel_zoom_fixes_world_point_untranslated\<close>).
\<close>

theorem wheel_zoom_moves_world_point:
  "viewRef (canvas (animationFrame (handleWheel (wheelAtCentre (- 1000))
      (worldWith heapABC \<lparr>nodes = [0, 1], links = [0]\<rparr>
         (canvas0\<lparr>viewRef := \<lparr>v_k = Num 1, v_tx = Num 100, v_ty = Num 0\<rparr>\<rparr>) 0.5))))
     = \<lparr>v_k = Num 5, v_tx = Num 100, v_ty = Num 0\<rparr>
   \<and> worldUnder \<lparr>v_k = Num 1, v_tx = Num 100, v_ty = Num 0\<rparr> (Num 0, Num 0) = (Num (- 100), Num 0)
   \<and> worldUnder \<lparr>v_k = Num 5, v_tx = Num 100, v_ty = Num 0\<rparr> (Num 0, Num 0) = (Num (- 20), Num 0)"
  using exp2_ge5
  by (simp add: animationFrame_def handleWheel_def wheelAtCentre_def worldWith_def canvas0_def
      physics_stop_def wheelFrame_def Let_def worldUnder_def minus_jsnum_def)

lemma wheel_zoom_fixes_world_point_untranslated:
  assumes "viewRef c = \<lparr>v_k = Num k, v_tx = Num 0, v_ty = Num 0\<rparr>" "0 < k"
  shows "worldUnder (viewRef (wheelFrame e c))
           (Num (we_clientX e - fst (rect c) - fst (dimensions c) / 2),
            Num (we_clientY e - snd (rect c) - snd (dimensions c) / 2))
       = worldUnder (viewRef c)
           (Num (we_clientX e - fst (rect c) - fst (dimensions c) / 2),
            Num (we_clientY e - snd (rect c) - snd (dimensions c) / 2))"
  using assms
  by (simp add: wheelFrame_def Let_def worldUnder_def minus_jsnum_def max_def min_def field_simps)

text \<open>
  C6. \<open>getNodeAt\<close> scales the base radius of the node's type and leaves the author
  count out, while the renderer adds \<open>min (author_count \<times> 0.5) 8\<close> before scaling. A
  cited node with sixteen authors is drawn with radius 16 at scale 1; a pointer 18 away
  from its centre is within radius plus margin and is not reported.
\<close>

theorem getNodeAt_ignores_author_count:
  "getNodeAt (worldWith heapAuthors \<lparr>nodes = [0], links = []\<rparr> canvas0 0.5) 418 300 = None
   \<and> hitTest_spec (worldWith heapAuthors \<lparr>nodes = [0], links = []\<rparr> canvas0 0.5) 418 300 = Some 0
   \<and> radiusScaled (nodeObj heapAuthors 0) (Num 1) = Num 16"
  by (simp add: getNodeAt_def hitTest_spec_def radiusScaled_def screenPos_def worldWith_def
      heapAuthors_def storeWith_def canvas0_def jsonNode_def Let_def minus_jsnum_def)

lemma getNodeAt_is_hitTest_spec:
  assumes "\<forall>n \<in> set (nodes (graphData (store w))).
             n_author_count (nodeObj (heap w) n) = None \<or> n_author_count (nodeObj (heap w) n) = Some 0"
  shows "getNodeAt w cX cY = hitTest_spec w cX cY"
  unfolding getNodeAt_def hitTest_spec_def Let_def
  apply (rule find_cong [OF refl])
  using assms
  apply (auto simp: radiusScaled_def screenPos_def split: option.splits)
  done

section \<open>Properties of click and expansion\<close>

lemma centerNode_frame:
  "centerNode i e w = (e', w') \<Longrightarrow>
     store w' = store w \<and> requests w' = requests w \<and> canvas w' = canvas w \<and> now w' = now w"
  by (auto simp: centerNode_def split: option.splits)

lemma handleClick_busy: "handlerIsExpandingNode w \<Longrightarrow> handleClick cX cY w = w"
  by (simp add: handleClick_def split: option.splits)

lemma handleClick_requests:
  "requests (handleClick cX cY w) =
     (case getNodeAt w cX cY of
        None \<Rightarrow> requests w
      | Some n \<Rightarrow> if handlerIsExpandingNode w then requests w
                  else requests w @ [n_id (nodeObj (heap w) n)])"
  by (auto simp: handleClick_def Let_def split: option.splits prod.splits dest!: centerNode_frame)

lemma handleClick_flag:
  "isExpandingNode (store (handleClick cX cY w)) =
     (case getNodeAt w cX cY of
        None \<Rightarrow> isExpandingNode (store w)
      | Some n \<Rightarrow> if handlerIsExpandingNode w then isExpandingNode (store w) else True)"
  by (auto simp: handleClick_def Let_def split: option.splits prod.splits dest!: centerNode_frame)

lemma getNodeAt_registerHandlers: "getNodeAt (registerHandlers w) cX cY = getNodeAt w cX cY"
  by (simp add: getNodeAt_def registerHandlers_def)

lemmas click_eval = handleClick_def getNodeAt_def worldNM_def worldWith_def heapNM_def
  storeWith_def canvas0_def jsonNode_def Let_def minus_jsnum_def centerNode_def engineAt_def
  sim_restart_def sim_alpha_def registerHandlers_def

lemma worldNM_click_N:
  "requests (handleClick 400 300 worldNM) = [''N'']"
  "isExpandingNode (store (handleClick 400 300 worldNM))"
  "\<not> isExpandingNode (store worldNM)"
  "getNodeAt worldNM 400 300 = Some 0"
  "getNodeAt (registerHandlers (handleClick 400 300 worldNM)) 600 300 = Some 1"
  "n_id (nodeObj (heap worldNM) 0) = ''N''"
  "n_id (nodeObj (heap (registerHandlers (handleClick 400 300 worldNM))) 1) = ''M''"
  "requests (registerHandlers (handleClick 400 300 worldNM)) = [''N'']"
  "handlerIsExpandingNode (registerHandlers (handleClick 400 300 worldNM))"
  by (simp_all add: click_eval)

text \<open>
  Two clicks that reach the same registered handler both pass its guard: the second
  click, on M, comes before the handlers are registered again and issues a second
  request.
\<close>

lemma handleClick_stale_closure:
  "requests (handleClick 600 300 (handleClick 400 300 worldNM)) = [''N'', ''M'']"
  by (simp add: click_eval)

text \<open>
  C7. The guard of \<open>handleClick\<close> is the flag \<open>isExpandingNode\<close>, one for all nodes.
  With N and M on the canvas, a click on N issues the request for N; once the component
  has rendered with the flag set, a click on M, while that request is awaiting its
  response, issues nothing.
\<close>

theorem click_on_other_node_is_ignored:
  "requests (registerHandlers (handleClick 400 300 worldNM)) = [''N'']
   \<and> getNodeAt (registerHandlers (handleClick 400 300 worldNM)) 600 300 = Some 1
   \<and> n_id (nodeObj (heap (registerHandlers (handleClick 400 300 worldNM))) 1) = ''M''
   \<and> requests (handleClick 600 300 (registerHandlers (handleClick 400 300 worldNM))) = [''N'']"
  using worldNM_click_N
    handleClick_busy [of "registerHandlers (handleClick 400 300 worldNM)" 600 300]
  by simp

text \<open>
  C7, as amended. The guard is one flag, not scoped to a node. When the handler holds
  the flag set, a click issues no request and changes nothing, whichever node it hits; so
  it does once the handlers are registered while the store's flag is set. Registered
  while the flag is clear, a click on a node issues the request for that node and sets the
  flag; and the flag is clear when the request has been resolved or rejected.
\<close>

theorem handleClick_guard_global:
  "(handlerIsExpandingNode w \<longrightarrow> handleClick cX cY w = w)
   \<and> (isExpandingNode (store w) \<longrightarrow>
        handleClick cX cY (registerHandlers w) = registerHandlers w)
   \<and> (\<not> isExpandingNode (store w) \<and> getNodeAt w cX cY = Some n \<longrightarrow>
        requests (handleClick cX cY (registerHandlers w))
          = requests w @ [n_id (nodeObj (heap w) n)]
      \<and> isExpandingNode (store (handleClick cX cY (registerHandlers w))))
   \<and> \<not> isExpandingNode (store (expandResolved i d w))
   \<and> \<not> isExpandingNode (store (expandRejected i w))"
proof (intro conjI impI)
  assume "handlerIsExpandingNode w"
  then show "handleClick cX cY w = w" by (rule handleClick_busy)
next
  assume "isExpandingNode (store w)"
  then show "handleClick cX cY (registerHandlers w) = registerHandlers w"
    by (intro handleClick_busy) (simp add: registerHandlers_def)
next
  assume a: "\<not> isExpandingNode (store w) \<and> getNodeAt w cX cY = Some n"
  then show "requests (handleClick cX cY (registerHandlers w))
          = requests w @ [n_id (nodeObj (heap w) n)]"
    by (simp add: handleClick_requests getNodeAt_registerHandlers) (simp add: registerHandlers_def)
  from a show "isExpandingNode (store (handleClick cX cY (registerHandlers w)))"
    by (simp add: handleClick_flag getNodeAt_registerHandlers) (simp add: registerHandlers_def)
next
  show "\<not> isExpandingNode (store (expandResolved i d w))"
    by (simp add: expandResolved_def split: prod.splits)
next
  show "\<not> isExpandingNode (store (expandRejected i w))"
    by (simp add: expandRejected_def)
qed

theorem handleClick_guard_global_witness:
  "handlerIsExpandingNode (registerHandlers (handleClick 400 300 worldNM))
   \<and> isExpandingNode (store (handleClick 400 300 worldNM))
   \<and> handleClick 600 300 (registerHandlers (handleClick 400 300 worldNM))
       = registerHandlers (handleClick 400 300 worldNM)
   \<and> \<not> isExpandingNode (store worldNM) \<and> getNodeAt worldNM 400 300 = Some 0
   \<and> requests (handleClick 400 300 (registerHandlers worldNM)) = [''N'']
   \<and> isExpandingNode (store (handleClick 400 300 (registerHandlers worldNM)))"
proof -
  have r: "requests worldNM = []"
    by (simp add: worldNM_def worldWith_def)
  from handleClick_guard_global [of "registerHandlers (handleClick 400 300 worldNM)" 600 300]
       handleClick_guard_global [of "handleClick 400 300 worldNM" 600 300]
       handleClick_guard_global [of worldNM 400 300 0]
       worldNM_click_N r
  show ?thesis by simp
qed

section \<open>Properties of the physics engine\<close>

text \<open>
  C8. \<open>restart\<close> calls the simulation's \<^verbatim>\<open>restart()\<close> and nothing else. An engine whose
  alpha has decayed to 0.002 has alpha 0.002 after \<open>stop\<close> and \<open>restart\<close>, below the 0.3
  that \<open>centerNode\<close> sets; so it has when a wheel interaction stops the engine and
  the wheel timeout restarts it 150 ms later.
\<close>

theorem restart_after_wheel_leaves_alpha:
  "map_option simulation (physicsRef (handleWheel (wheelAtCentre (- 100))
       (worldWith heapABC \<lparr>nodes = [0, 1], links = [0]\<rparr> canvas0 (1 / 500))))
     = Some \<lparr>alpha = 1 / 500, running = False\<rparr>
   \<and> map_option simulation (physicsRef (advance 150 (handleWheel (wheelAtCentre (- 100))
       (worldWith heapABC \<lparr>nodes = [0, 1], links = [0]\<rparr> canvas0 (1 / 500)))))
     = Some \<lparr>alpha = 1 / 500, running = True\<rparr>
   \<and> alpha (simulation (restart (stop (engineAt (1 / 500) [0, 1] [0])))) = 1 / 500
   \<and> alpha (simulation (restart (stop (engineAt (1 / 500) [0, 1] [0])))) < 3 / 10"
  by (simp add: handleWheel_def wheelAtCentre_def worldWith_def canvas0_def engineAt_def
      physics_stop_def physics_restart_def advance_def Let_def
      restart_def stop_def sim_restart_def sim_stop_def)

text \<open>
  C8, as amended. \<open>restart\<close> resumes ticking and leaves alpha as it is; after \<open>stop\<close>, a
  \<open>restart\<close> leaves the simulation running with the alpha it had when it was stopped.
\<close>

theorem restart_keeps_alpha:
  "alpha (simulation (restart e)) = alpha (simulation e)
   \<and> running (simulation (restart e))
   \<and> alpha (simulation (restart (stop e))) = alpha (simulation e)
   \<and> running (simulation (restart (stop e)))
   \<and> \<not> running (simulation (stop e))"
  by (simp add: restart_def stop_def sim_restart_def sim_stop_def)

lemma fire_keeps_unpinned:
  "n_fx (nodeObj (heap w) r) = None \<and> n_fy (nodeObj (heap w) r) = None \<Longrightarrow>
   n_fx (nodeObj (heap (fire c w)) r) = None \<and> n_fy (nodeObj (heap (fire c w)) r) = None"
  by (cases c) (simp_all add: physics_restart_def)

lemma fold_fire_keeps_unpinned:
  "n_fx (nodeObj (heap w) r) = None \<and> n_fy (nodeObj (heap w) r) = None \<Longrightarrow>
   n_fx (nodeObj (heap (fold fire cs w)) r) = None \<and> n_fy (nodeObj (heap (fold fire cs w)) r) = None"
proof (induction cs arbitrary: w)
  case Nil
  then show ?case by simp
next
  case (Cons c cs)
  from Cons.IH [OF fire_keeps_unpinned [OF Cons.prems]] show ?case by simp
qed

lemma fold_fire_unpins:
  "UnpinNode r \<in> set cs \<Longrightarrow>
   n_fx (nodeObj (heap (fold fire cs w)) r) = None \<and> n_fy (nodeObj (heap (fold fire cs w)) r) = None"
proof (induction cs arbitrary: w)
  case Nil
  then show ?case by simp
next
  case (Cons c cs)
  show ?case
  proof (cases "c = UnpinNode r")
    case True
    have "n_fx (nodeObj (heap (fire c w)) r) = None \<and> n_fy (nodeObj (heap (fire c w)) r) = None"
      using True by simp
    from fold_fire_keeps_unpinned [OF this] show ?thesis by simp
  next
    case False
    with Cons.prems have "UnpinNode r \<in> set cs" by simp
    from Cons.IH [OF this] show ?thesis by simp
  qed
qed

lemma fold_fire_timeouts: "timeouts (fold fire cs w) = timeouts w"
proof (induction cs arbitrary: w)
  case Nil
  then show ?case by simp
next
  case (Cons c cs)
  then show ?case by (cases c) (simp_all add: physics_restart_def)
qed

lemma advance_unpins:
  assumes "(t, UnpinNode r) \<in> set (timeouts w)" and "t \<le> now w + d"
  shows "n_fx (nodeObj (heap (advance d w)) r) = None \<and> n_fy (nodeObj (heap (advance d w)) r) = None"
proof -
  have "UnpinNode r \<in> set (map snd (sort_key fst (filter (\<lambda>(u, c). u \<le> now w + d) (timeouts w))))"
    using assms by force
  from fold_fire_unpins [OF this] show ?thesis
    by (simp add: advance_def Let_def)
qed

lemma advance_keeps_pending:
  assumes "(t, c) \<in> set (timeouts w)" and "now w + d < t"
  shows "(t, c) \<in> set (timeouts (advance d w))"
  using assms by (simp add: advance_def Let_def fold_fire_timeouts)

text \<open>
  C9. For an id of the working set, \<open>centerNode\<close> pins the first node with that id at
  the origin and restarts the simulation with alpha 0.3. Its timeout is pending as long
  as less than 1000 ms have passed, and once 1000 ms have passed the pin fields of the
  node are cleared.
\<close>

theorem centerNode_pins_then_unpins:
  assumes "find (\<lambda>n. n_id (nodeObj (heap w) n) = nodeId) (e_nodes e) = Some node"
  shows "n_fx (nodeObj (heap (snd (centerNode nodeId e w))) node) = Some 0
       \<and> n_fy (nodeObj (heap (snd (centerNode nodeId e w))) node) = Some 0
       \<and> alpha (simulation (fst (centerNode nodeId e w))) = 3 / 10
       \<and> running (simulation (fst (centerNode nodeId e w)))
       \<and> (\<forall>d. d < 1000 \<longrightarrow>
            (now w + 1000, UnpinNode node) \<in> set (timeouts (advance d (snd (centerNode nodeId e w)))))
       \<and> (\<forall>d. 1000 \<le> d \<longrightarrow>
            n_fx (nodeObj (heap (advance d (snd (centerNode nodeId e w)))) node) = None
          \<and> n_fy (nodeObj (heap (advance d (snd (centerNode nodeId e w)))) node) = None)"
proof -
  let ?w = "snd (centerNode nodeId e w)"
  have t: "(now w + 1000, UnpinNode node) \<in> set (timeouts ?w)" and n: "now ?w = now w"
    using assms by (simp_all add: centerNode_def)
  have "\<forall>d. d < 1000 \<longrightarrow> (now w + 1000, UnpinNode node) \<in> set (timeouts (advance d ?w))"
    using advance_keeps_pending [OF t] n by simp
  moreover have "\<forall>d. 1000 \<le> d \<longrightarrow>
      n_fx (nodeObj (heap (advance d ?w)) node) = None \<and> n_fy (nodeObj (heap (advance d ?w)) node) = None"
    using advance_unpins [OF t] n by simp
  moreover have "n_fx (nodeObj (heap ?w) node) = Some 0" "n_fy (nodeObj (heap ?w) node) = Some 0"
    "alpha (simulation (fst (centerNode nodeId e w))) = 3 / 10"
    "running (simulation (fst (centerNode nodeId e w)))"
    using assms by (simp_all add: centerNode_def sim_restart_def sim_alpha_def)
  ultimately show ?thesis by blast
qed

theorem centerNode_pins_then_unpins_witness:
  "find (\<lambda>n. n_id (nodeObj (heap worldNM) n) = ''M'') (e_nodes (engineAt (1 / 2) [0, 1] []))
     = Some 1
   \<and> n_fx (nodeObj (heap (snd (centerNode ''M'' (engineAt (1 / 2) [0, 1] []) worldNM))) 1) = Some 0
   \<and> n_fy (nodeObj (heap (snd (centerNode ''M'' (engineAt (1 / 2) [0, 1] []) worldNM))) 1) = Some 0
   \<and> alpha (simulation (fst (centerNode ''M'' (engineAt (1 / 2) [0, 1] []) worldNM))) = 3 / 10
   \<and> (now worldNM + 1000, UnpinNode 1)
        \<in> set (timeouts (advance 999 (snd (centerNode ''M'' (engineAt (1 / 2) [0, 1] []) worldNM))))
   \<and> n_fx (nodeObj (heap (advance 1000 (snd (centerNode ''M'' (engineAt (1 / 2) [0, 1] []) worldNM)))) 1)
        = None
   \<and> n_fy (nodeObj (heap (advance 1000 (snd (centerNode ''M'' (engineAt (1 / 2) [0, 1] []) worldNM)))) 1)
        = None"
proof -
  have a: "find (\<lambda>n. n_id (nodeObj (heap worldNM) n) = ''M'') (e_nodes (engineAt (1 / 2) [0, 1] []))
     = Some 1"
    by (simp add: worldNM_def worldWith_def heapNM_def engineAt_def jsonNode_def)
  note th = centerNode_pins_then_unpins [OF a]
  have "(999::real) < 1000" "(1000::real) \<le> 1000" by simp_all
  with th a show ?thesis by blast
qed

end
